theory Spec2Isabelle
  imports Main "HOL-Library.Sublist"
begin

section \<open>The MFSU plugin: data model\<close>

text \<open>
  The plugin of \<^verbatim>\<open>ServiceWithBuiltIn.ts\<close> (the part after the document separator,
  lines 25 to 470) glues three collaborators together: \<^verbatim>\<open>DepInfo\<close> (the snapshot store),
  \<^verbatim>\<open>DepBuilder\<close> (the bundler front end) and the host framework's \<^verbatim>\<open>api\<close>. The model
  keeps JavaScript strings as \<open>string\<close>, optional properties as \<open>option\<close>, thrown
  exceptions as the left summand of a sum, and side effects as a list of events in the
  order in which the code performs them.
\<close>

datatype js_error =
    AssertionError string
  | Error string
  | TypeError string
  | SyntaxError string
  | ENOENT string

text \<open>\<^verbatim>\<open>mfsu.development\<close> and \<^verbatim>\<open>mfsu.production\<close>: objects with an optional \<^verbatim>\<open>output\<close>.\<close>

record mode_config =
  cfg_output :: "string option"

record mfsu_config =
  development :: "mode_config option"
  production :: "mode_config option"
  mfName :: "string option"

text \<open>The fields of \<^verbatim>\<open>api\<close> that the plugin reads.\<close>

record api =
  config_mfsu :: "mfsu_config option"
  config_publicPath :: string
  userConfig_mfsu :: "mfsu_config option"
  userConfig_outputPath :: "string option"
  cwd :: string
  paths_absTmpPath :: string

text \<open>
  Functions of the platform and of npm packages that the plugin calls (\<^verbatim>\<open>path.join\<close>,
  \<^verbatim>\<open>path.parse(p).ext\<close>, \<^verbatim>\<open>mime.lookup\<close>, \<^verbatim>\<open>new URL(s).pathname\<close>, and the
  regular expression engine on a pattern built at run time). They are parameters of the
  model. \<open>URL_pathname\<close> is \<open>None\<close> where the constructor throws; \<open>RegExp_exec src\<close> is
  \<open>None\<close> where \<^verbatim>\<open>new RegExp(src)\<close> throws, and otherwise maps a subject to the first
  match as (start, length).
\<close>

record platform =
  path_join :: "string list \<Rightarrow> string"
  path_parse_ext :: "string \<Rightarrow> string"
  mime_lookup :: "string \<Rightarrow> string"
  URL_pathname :: "string \<Rightarrow> string option"
  RegExp_exec :: "string \<Rightarrow> (string \<Rightarrow> (nat \<times> nat) option) option"

subsection \<open>JavaScript truthiness and the fixed regular expressions\<close>

text \<open>An optional string is truthy when it is present and not empty.\<close>

definition truthy :: "string option \<Rightarrow> bool" where
  "truthy v = (case v of None \<Rightarrow> False | Some s \<Rightarrow> s \<noteq> [])"

text \<open>\<^verbatim>\<open>a || b\<close> on an optional string and a default string.\<close>

definition or_else :: "string option \<Rightarrow> string \<Rightarrow> string" where
  "or_else v d = (case v of None \<Rightarrow> d | Some s \<Rightarrow> if s = [] then d else s)"

text \<open>
  An unanchored \<^verbatim>\<open>re.test(s)\<close>: the matcher \<open>m\<close> is tried at every start position of
  \<open>s\<close>, from left to right.
\<close>

fun re_search :: "(string \<Rightarrow> bool) \<Rightarrow> string \<Rightarrow> bool" where
  "re_search m [] = m []"
| "re_search m (c # cs) = (m (c # cs) \<or> re_search m cs)"

text \<open>\<^verbatim>\<open>/\.mfsu/.test(s)\<close>: the text \<^verbatim>\<open>.mfsu\<close> occurs in \<open>s\<close>.\<close>

definition test_mfsu :: "string \<Rightarrow> bool" where
  "test_mfsu s = re_search (prefix ''.mfsu'') s"

text \<open>\<^verbatim>\<open>/^https?\:\/\//.test(s)\<close>.\<close>

definition test_http :: "string \<Rightarrow> bool" where
  "test_http s = (prefix ''http://'' s \<or> prefix ''https://'' s)"

text \<open>
  The pattern \<^verbatim>\<open>^(?:\.+\/?)+\<close> matches greedily: a run of dots, then a slash if there
  is one, and again as long as a dot follows. \<open>dot_groups b s\<close> is the text left after the
  match; the flag says that the last character consumed was a dot, so that a slash may
  follow.
\<close>

fun dot_groups :: "bool \<Rightarrow> string \<Rightarrow> string" where
  "dot_groups b [] = []"
| "dot_groups b (c # cs) =
     (if c = CHR ''.'' then dot_groups True cs
      else if c = CHR ''/'' \<and> b then dot_groups False cs
      else c # cs)"

text \<open>\<^verbatim>\<open>s.replace(/^(?:\.+\/?)+/, '/')\<close>: the pattern needs a dot at the start.\<close>

definition replace_leading_dots :: "string \<Rightarrow> string" where
  "replace_leading_dots s =
     (case s of [] \<Rightarrow> s
      | c # cs \<Rightarrow> if c = CHR ''.'' then CHR ''/'' # dot_groups False s else s)"

text \<open>
  \<^verbatim>\<open>/remoteEntry.js/.test(s)\<close>: the dot is not escaped, so it stands for any character
  that is not a line terminator. Request paths and URLs are ASCII text, one \<open>char\<close> for
  each character, so the line terminators are line feed and carriage return.
\<close>

definition line_terminator :: "char \<Rightarrow> bool" where
  "line_terminator c = (c = CHR 0x0A \<or> c = CHR 0x0D)"

definition remoteEntry_here :: "string \<Rightarrow> bool" where
  "remoteEntry_here s =
     (prefix ''remoteEntry'' s \<and>
      (case drop 11 s of [] \<Rightarrow> False
       | c # rest \<Rightarrow> \<not> line_terminator c \<and> prefix ''js'' rest))"

definition test_remoteEntry :: "string \<Rightarrow> bool" where
  "test_remoteEntry s = re_search remoteEntry_here s"

section \<open>checkConfig\<close>

text \<open>
  Lines 46 to 62. Each \<^verbatim>\<open>assert\<close> throws an AssertionError with its message when its
  condition is false, and is reached only when the output is truthy; the development
  output is checked first.
\<close>

definition output_of :: "mfsu_config option \<Rightarrow> (mfsu_config \<Rightarrow> mode_config option) \<Rightarrow> string option" where
  "output_of mfsu sel =
     (case mfsu of None \<Rightarrow> None
      | Some m \<Rightarrow> (case sel m of None \<Rightarrow> None | Some c \<Rightarrow> cfg_output c))"

definition assert_output :: "string option \<Rightarrow> string \<Rightarrow> js_error + unit" where
  "assert_output out msg =
     (case out of None \<Rightarrow> Inr ()
      | Some s \<Rightarrow>
          if s = [] then Inr ()
          else if test_mfsu s then Inr ()
          else Inl (AssertionError msg))"

definition checkConfig :: "api \<Rightarrow> js_error + unit" where
  "checkConfig a =
     (let mfsu = config_mfsu a in
      case assert_output (output_of mfsu development)
             ''[MFSU] mfsu.development.output must match /.mfsu/.'' of
        Inl e \<Rightarrow> Inl e
      | Inr _ \<Rightarrow>
          assert_output (output_of mfsu production)
            ''[MFSU] mfsu.production.output must match /.mfsu/.'')"

section \<open>getMfsuPath and normalizeReqPath\<close>

text \<open>Lines 64 to 76. The mode is a string at run time; every mode but
  \<^verbatim>\<open>'development'\<close> takes the second branch.\<close>

definition getMfsuPath :: "platform \<Rightarrow> api \<Rightarrow> string \<Rightarrow> string" where
  "getMfsuPath pf a m =
     (if m = ''development'' then
        (case output_of (userConfig_mfsu a) development of
           None \<Rightarrow> path_join pf [paths_absTmpPath a, ''.cache'', ''.mfsu'']
         | Some configPath \<Rightarrow>
             if configPath \<noteq> [] then path_join pf [cwd a, configPath]
             else path_join pf [paths_absTmpPath a, ''.cache'', ''.mfsu''])
      else
        (case output_of (userConfig_mfsu a) production of
           None \<Rightarrow> path_join pf [cwd a, ''./.mfsu-production'']
         | Some configPath \<Rightarrow>
             if configPath \<noteq> [] then path_join pf [cwd a, configPath]
             else path_join pf [cwd a, ''./.mfsu-production'']))"

record req_path_info =
  isMfAssets :: bool
  normalPublicPath :: string
  fileRelativePath :: string

text \<open>Lines 79 to 84: the public path, normalised. \<^verbatim>\<open>new URL\<close> throws a TypeError on
  a text that is not a URL.\<close>

definition normal_public_path :: "platform \<Rightarrow> string \<Rightarrow> js_error + string" where
  "normal_public_path pf publicPath =
     (if test_http publicPath then
        (case URL_pathname pf publicPath of
           None \<Rightarrow> Inl (TypeError ''Invalid URL'')
         | Some p \<Rightarrow> Inr p)
      else Inr (replace_leading_dots publicPath))"

text \<open>\<^verbatim>\<open>s.replace(re, '/')\<close> for a regular expression without the global flag: the
  first match, if any, is replaced.\<close>

definition replace_first :: "(string \<Rightarrow> (nat \<times> nat) option) \<Rightarrow> string \<Rightarrow> string \<Rightarrow> string" where
  "replace_first re s rep =
     (case re s of None \<Rightarrow> s
      | Some (i, n) \<Rightarrow> take i s @ rep @ drop (i + n) s)"

text \<open>Lines 78 to 97.\<close>

definition normalizeReqPath :: "platform \<Rightarrow> api \<Rightarrow> string \<Rightarrow> js_error + req_path_info" where
  "normalizeReqPath pf a reqPath =
     (case normal_public_path pf (config_publicPath a) of
        Inl e \<Rightarrow> Inl e
      | Inr npp \<Rightarrow>
          (let isMf =
                 (prefix (npp @ ''mf-va_'') reqPath \<or>
                  prefix (npp @ ''mf-dep_'') reqPath \<or>
                  prefix (npp @ ''mf-static/'') reqPath)
           in case RegExp_exec pf (CHR ''^'' # npp) of
                None \<Rightarrow> Inl (SyntaxError ''Invalid regular expression'')
              | Some re \<Rightarrow>
                  Inr \<lparr>isMfAssets = isMf,
                       normalPublicPath = npp,
                       fileRelativePath = drop 1 (replace_first re reqPath ''/'')\<rparr>))"

section \<open>Effects\<close>

text \<open>The message written to the dev server's sockets is a JSON value.\<close>

datatype json = JStr string | JBool bool | JObj "(string \<times> json) list"

text \<open>
  What the plugin does to the outside world, one event for each call, in program order.
  \<open>BuildComplete\<close> marks the moment at which the dependency builder tells its waiting
  parties that the build has finished.
\<close>

datatype event =
    MkdirpSync string
  | NewDepInfo string string
  | LoadCache
  | NewDepBuilder string string
  | LoadTmpDeps
  | Build "string list"
  | WriteCache
  | SockWrite json
  | Copy string string
  | ConsoleLog string
  | ReadFileSync string
  | SetHeader string string
  | Send string
  | Next
  | BuildComplete

text \<open>A run: the events performed, and then either the exception thrown or the result.\<close>

type_synonym 'a run = "event list \<times> (js_error + 'a)"

section \<open>The plugin's state and onStart\<close>

text \<open>
  The closure variables of the plugin function that the claims are about: \<^verbatim>\<open>mode\<close>
  (line 111, a string at run time) and the \<^verbatim>\<open>tmpDir\<close> of the \<^verbatim>\<open>depBuilder\<close> created
  by onStart.
\<close>

record plugin_state =
  mode :: string
  tmpDir :: string

definition initial_mode :: string where
  "initial_mode = ''development''"

text \<open>
  The parsed command line: \<^verbatim>\<open>args._\<close>, \<^verbatim>\<open>args.mode\<close> and \<^verbatim>\<open>args.force\<close>. An option
  that was not given is \<open>None\<close>.
\<close>

record cmd_args =
  positional :: "string list"
  arg_mode :: "string option"
  arg_force :: "bool option"

text \<open>\<^verbatim>\<open>xs[i]\<close> on a JavaScript array: \<^verbatim>\<open>undefined\<close> out of range.\<close>

definition at_index :: "'a list \<Rightarrow> nat \<Rightarrow> 'a option" where
  "at_index xs i = (if i < length xs then Some (xs ! i) else None)"

text \<open>Lines 130 to 137, from the current value \<open>m0\<close> of \<^verbatim>\<open>mode\<close>.\<close>

definition select_mode :: "string \<Rightarrow> cmd_args \<Rightarrow> string \<Rightarrow> string" where
  "select_mode name args m0 =
     (if name = ''build'' then ''production''
      else if name = ''mfsu'' \<and> at_index (positional args) 1 = Some ''build''
              \<and> truthy (arg_mode args)
      then or_else (arg_mode args) ''development''
      else m0)"

text \<open>
  Lines 125 to 174. \<open>existsSync\<close> is the state of the file system as the code asks for
  it. Nothing is done to the outside world before the two checks have passed.
\<close>

definition onStart ::
  "platform \<Rightarrow> api \<Rightarrow> (string \<Rightarrow> bool) \<Rightarrow> string \<Rightarrow> string \<Rightarrow> cmd_args \<Rightarrow> plugin_state run" where
  "onStart pf a existsSync m0 name args =
     (case checkConfig a of
        Inl e \<Rightarrow> ([], Inl e)
      | Inr _ \<Rightarrow>
          (let m = select_mode name args m0 in
           if m \<noteq> ''development'' \<and> m \<noteq> ''production'' then
             ([], Inl (AssertionError
                (''[MFSU] Unsupported mode '' @ m @ '', expect development or production.'')))
           else
             (let dir = getMfsuPath pf a m in
              ((if existsSync dir then [] else [MkdirpSync dir]) @
               [NewDepInfo dir m, LoadCache, NewDepBuilder dir m],
               Inr \<lparr>mode = m, tmpDir = dir\<rparr>))))"

section \<open>buildDeps\<close>

record stats =
  hasErrors :: bool

definition reload_message :: json where
  "reload_message =
     JObj [(''type'', JStr ''ok''), (''data'', JObj [(''reload'', JBool True)])]"

text \<open>
  Lines 421 to 434, the callback given to \<^verbatim>\<open>depBuilder.build\<close>. The error is \<open>None\<close>
  for \<^verbatim>\<open>null\<close>; \<^verbatim>\<open>stats.hasErrors()\<close> on a missing \<^verbatim>\<open>stats\<close> throws a TypeError.
\<close>

definition onBuildComplete :: "string \<Rightarrow> js_error option \<Rightarrow> stats option \<Rightarrow> unit run" where
  "onBuildComplete m err st =
     (case err of
        Some e \<Rightarrow> ([], Inr ())
      | None \<Rightarrow>
          (case st of
             None \<Rightarrow> ([], Inl (TypeError ''Cannot read properties of undefined''))
           | Some s \<Rightarrow>
               if hasErrors s then ([], Inr ())
               else (WriteCache # (if m = ''development'' then [SockWrite reload_message] else []),
                     Inr ())))"

text \<open>
  What \<^verbatim>\<open>DepInfo\<close> and \<^verbatim>\<open>DepBuilder\<close> (neither is among the sources) contribute to one
  call of buildDeps: the answer of \<^verbatim>\<open>depInfo.loadTmpDeps()\<close>, the dependencies in
  \<^verbatim>\<open>depInfo.data.deps\<close>, and the arguments with which the build calls its completion
  callback.
\<close>

record dep_env =
  shouldBuild :: bool
  deps :: "string list"
  build_err :: "js_error option"
  build_stats :: "stats option"

text \<open>The build has failed: the error is not null, or the stats report errors.\<close>

definition build_failed :: "dep_env \<Rightarrow> bool" where
  "build_failed env =
     (case build_err env of
        Some e \<Rightarrow> True
      | None \<Rightarrow> (case build_stats env of None \<Rightarrow> False | Some x \<Rightarrow> hasErrors x))"

text \<open>
  Modelled from the spec: \<^verbatim>\<open>DepBuilder.build\<close>, which is not among the sources. The spec
  says that on completion it invokes the completion callback with (error, buildStats),
  that the error is not null for any failure of the compiler, that a failure is surfaced
  to the caller of the reconciliation, and that a failure in production mode aborts the
  pipeline. So the callback is called first, and the promise is then rejected when the
  build has failed and resolved otherwise; an exception of the callback leaves the build
  as an exception.
\<close>

definition DepBuilder_build ::
  "dep_env \<Rightarrow> (js_error option \<Rightarrow> stats option \<Rightarrow> unit run) \<Rightarrow> unit run" where
  "DepBuilder_build env callback =
     (case callback (build_err env) (build_stats env) of
        (evs, Inl e) \<Rightarrow> (evs, Inl e)
      | (evs, Inr _) \<Rightarrow>
          if build_failed env then (evs, Inl (Error ''build failed''))
          else (evs, Inr ()))"

text \<open>
  Lines 438 to 446: the copy into the publish directory, guarded by the mode alone.
\<close>

definition copy_to_dist :: "platform \<Rightarrow> api \<Rightarrow> plugin_state \<Rightarrow> event list" where
  "copy_to_dist pf a s =
     (if mode s = ''production''
      then [Copy (tmpDir s) (path_join pf [cwd a, or_else (userConfig_outputPath a) ''./dist''])]
      else [])"

text \<open>
  Lines 413 to 447. \<^verbatim>\<open>opts.force\<close> is \<open>None\<close> when it is not given. When the awaited
  build throws, buildDeps ends with that exception and the rest is not run.
\<close>

definition buildDeps ::
  "platform \<Rightarrow> api \<Rightarrow> plugin_state \<Rightarrow> dep_env \<Rightarrow> bool option \<Rightarrow> unit run" where
  "buildDeps pf a s env force =
     (if force = Some True \<or> shouldBuild env then
        (case DepBuilder_build env (onBuildComplete (mode s)) of
           (evs, Inl e) \<Rightarrow> (LoadTmpDeps # Build (deps env) # evs, Inl e)
         | (evs, Inr _) \<Rightarrow>
             (LoadTmpDeps # Build (deps env) # evs @ copy_to_dist pf a s, Inr ()))
      else (LoadTmpDeps # copy_to_dist pf a s, Inr ()))"

section \<open>The mfsu command\<close>

text \<open>Lines 455 to 468. \<^verbatim>\<open>args._[0]\<close> of an empty list is \<^verbatim>\<open>undefined\<close>.\<close>

definition unsupported_subcommand :: "string option \<Rightarrow> js_error" where
  "unsupported_subcommand sub =
     Error (''[MFSU] Unsupported subcommand '' @
            (case sub of None \<Rightarrow> ''undefined'' | Some x \<Rightarrow> x) @ '' for mfsu.'')"

definition mfsu_fn ::
  "platform \<Rightarrow> api \<Rightarrow> plugin_state \<Rightarrow> dep_env \<Rightarrow> cmd_args \<Rightarrow> unit run" where
  "mfsu_fn pf a s env args =
     (if at_index (positional args) 0 = Some ''build'' then
        (case buildDeps pf a s env (arg_force args) of
           (evs, r) \<Rightarrow> (ConsoleLog ''[MFSU] build deps...'' # evs, r))
      else ([], Inl (unsupported_subcommand (at_index (positional args) 0))))"

text \<open>
  The host runs the onStart hooks before the function of the command (the comment at
  line 124) and hands both the same \<^verbatim>\<open>args\<close>; an exception of onStart ends the run.
\<close>

definition run_mfsu ::
  "platform \<Rightarrow> api \<Rightarrow> (string \<Rightarrow> bool) \<Rightarrow> dep_env \<Rightarrow> cmd_args \<Rightarrow> unit run" where
  "run_mfsu pf a existsSync env args =
     (case onStart pf a existsSync initial_mode ''mfsu'' args of
        (evs, Inl e) \<Rightarrow> (evs, Inl e)
      | (evs, Inr s) \<Rightarrow>
          (case mfsu_fn pf a s env args of (evs', r) \<Rightarrow> (evs @ evs', r)))"

section \<open>The middleware\<close>

record request =
  req_path :: string
  req_url :: string

text \<open>The files that \<^verbatim>\<open>readFileSync\<close> can read, with their text.\<close>

type_synonym files = "string \<rightharpoonup> string"

text \<open>
  Lines 343 to 355, the function given to \<^verbatim>\<open>depBuilder.onBuildComplete\<close>. The
  directory is that of the development mode, whatever \<^verbatim>\<open>mode\<close> holds.
  \<^verbatim>\<open>readFileSync\<close> throws on a missing file, before any header is set.
\<close>

definition serve_asset :: "platform \<Rightarrow> api \<Rightarrow> request \<Rightarrow> string \<Rightarrow> files \<Rightarrow> unit run" where
  "serve_asset pf a req rel fs =
     (let mfsuPath = getMfsuPath pf a ''development'';
          file = path_join pf [mfsuPath, rel]
      in case fs file of
           None \<Rightarrow> ([ReadFileSync file], Inl (ENOENT file))
         | Some content \<Rightarrow>
             (ReadFileSync file #
              SetHeader ''content-type'' (mime_lookup pf (path_parse_ext pf (req_path req))) #
              (if \<not> test_remoteEntry (req_url req)
               then [SetHeader ''cache-control'' ''max-age=31536000,immutable'']
               else []) @
              [Send content],
              Inr ()))"

text \<open>
  What the middleware does with a request, lines 338 to 359: it calls \<^verbatim>\<open>next()\<close>, or it
  hands a function to \<^verbatim>\<open>depBuilder.onBuildComplete\<close> and returns.
\<close>

datatype action =
    CallNext
  | OnBuildComplete "files \<Rightarrow> unit run"

definition middleware :: "platform \<Rightarrow> api \<Rightarrow> request \<Rightarrow> js_error + action" where
  "middleware pf a req =
     (case normalizeReqPath pf a (req_path req) of
        Inl e \<Rightarrow> Inl e
      | Inr r \<Rightarrow>
          if isMfAssets r then Inr (OnBuildComplete (serve_asset pf a req (fileRelativePath r)))
          else Inr CallNext)"

text \<open>The response object: \<^verbatim>\<open>setHeader\<close> and \<^verbatim>\<open>send\<close> act on it, nothing else does.\<close>

record response =
  headers :: "string \<rightharpoonup> string"
  body :: "string option"

fun respond :: "event list \<Rightarrow> response \<Rightarrow> response" where
  "respond [] res = res"
| "respond (SetHeader k v # evs) res = respond evs (res\<lparr>headers := (headers res)(k \<mapsto> v)\<rparr>)"
| "respond (Send c # evs) res = respond evs (res\<lparr>body := Some c\<rparr>)"
| "respond (_ # evs) res = respond evs res"

section \<open>The dependency builder's completion queue\<close>

text \<open>
  Modelled from the spec: \<^verbatim>\<open>DepBuilder.onBuildComplete\<close> and the completion of a build,
  which are not among the sources. The spec says that a request arriving while a build is
  in flight is suspended until the completion notification of that build fires, that a
  request arriving while no build is in flight is served immediately, and that the
  completion notification is broadcast to all parties waiting on the build.
\<close>

record dep_builder =
  isBuilding :: bool
  waiting :: "(files \<Rightarrow> unit run) list"

definition DepBuilder_onBuildComplete ::
  "(files \<Rightarrow> unit run) \<Rightarrow> files \<Rightarrow> dep_builder \<Rightarrow> dep_builder \<times> event list" where
  "DepBuilder_onBuildComplete fn fs b =
     (if isBuilding b then (b\<lparr>waiting := waiting b @ [fn]\<rparr>, [])
      else (b, fst (fn fs)))"

definition DepBuilder_complete :: "files \<Rightarrow> dep_builder \<Rightarrow> dep_builder \<times> event list" where
  "DepBuilder_complete fs b =
     (b\<lparr>isBuilding := False, waiting := []\<rparr>,
      BuildComplete # concat (map (\<lambda>fn. fst (fn fs)) (waiting b)))"

text \<open>
  The dev server around the middleware: requests arrive, builds start, and builds
  complete, leaving the files of the output directory as \<open>fs\<close>.
\<close>

datatype input =
    Request request
  | BuildStarts
  | BuildCompletes files

record server =
  builder :: dep_builder
  disk :: files

definition server_step :: "platform \<Rightarrow> api \<Rightarrow> server \<Rightarrow> input \<Rightarrow> server \<times> event list" where
  "server_step pf a sv inp =
     (case inp of
        Request req \<Rightarrow>
          (case middleware pf a req of
             Inl e \<Rightarrow> (sv, [])
           | Inr CallNext \<Rightarrow> (sv, [Next])
           | Inr (OnBuildComplete fn) \<Rightarrow>
               (case DepBuilder_onBuildComplete fn (disk sv) (builder sv) of
                  (b, evs) \<Rightarrow> (sv\<lparr>builder := b\<rparr>, evs)))
      | BuildStarts \<Rightarrow> (sv\<lparr>builder := (builder sv)\<lparr>isBuilding := True\<rparr>\<rparr>, [])
      | BuildCompletes fs \<Rightarrow>
          (case DepBuilder_complete fs (builder sv) of
             (b, evs) \<Rightarrow> (sv\<lparr>builder := b, disk := fs\<rparr>, evs)))"

fun server_run :: "platform \<Rightarrow> api \<Rightarrow> server \<Rightarrow> input list \<Rightarrow> server \<times> event list" where
  "server_run pf a sv [] = (sv, [])"
| "server_run pf a sv (inp # inps) =
     (case server_step pf a sv inp of
        (sv', evs) \<Rightarrow>
          (case server_run pf a sv' inps of (sv'', evs') \<Rightarrow> (sv'', evs @ evs')))"

text \<open>Predicates on traces.\<close>

fun is_read :: "event \<Rightarrow> bool" where
  "is_read (ReadFileSync _) = True"
| "is_read _ = False"

fun is_response :: "event \<Rightarrow> bool" where
  "is_response (SetHeader _ _) = True"
| "is_response (Send _) = True"
| "is_response _ = False"

text \<open>No file is read, and nothing is sent, before the first completion of a build.\<close>

definition quiet_until_complete :: "event list \<Rightarrow> bool" where
  "quiet_until_complete tr =
     list_all (\<lambda>e. \<not> is_read e \<and> \<not> is_response e) (takeWhile (\<lambda>e. e \<noteq> BuildComplete) tr)"

section \<open>A sample platform for evaluation\<close>

text \<open>
  Concrete stand-ins for the platform functions, used where a statement is evaluated on
  an input: paths are joined as the POSIX \<^verbatim>\<open>path.join\<close> does it (the parts that are not
  empty are joined with a slash and the result is normalised: empty and \<^verbatim>\<open>.\<close> segments
  go, a \<^verbatim>\<open>..\<close> segment takes the segment before it away), the extension is the text from
  the last dot, two content types are known, a URL's path name is found only for one
  host, and the regular expression engine knows the pattern \<^verbatim>\<open>^/\<close>.
\<close>

fun split_slash :: "string \<Rightarrow> string list" where
  "split_slash [] = [[]]"
| "split_slash (c # cs) =
     (if c = CHR ''/'' then [] # split_slash cs
      else (case split_slash cs of [] \<Rightarrow> [[c]] | seg # segs \<Rightarrow> (c # seg) # segs))"

fun resolve_segments :: "bool \<Rightarrow> string list \<Rightarrow> string list \<Rightarrow> string list" where
  "resolve_segments ab st [] = rev st"
| "resolve_segments ab st (seg # segs) =
     (if seg = [] \<or> seg = ''.'' then resolve_segments ab st segs
      else if seg = ''..'' then
        (case st of
           [] \<Rightarrow> if ab then resolve_segments ab [] segs else resolve_segments ab [seg] segs
         | seg' # below \<Rightarrow>
             if seg' = ''..'' then resolve_segments ab (seg # st) segs
             else resolve_segments ab below segs)
      else resolve_segments ab (seg # st) segs)"

fun join_slash :: "string list \<Rightarrow> string" where
  "join_slash [] = []"
| "join_slash [p] = p"
| "join_slash (p # q # ps) = p @ CHR ''/'' # join_slash (q # ps)"

definition sample_normalize :: "string \<Rightarrow> string" where
  "sample_normalize p =
     (if p = [] then ''.''
      else
        (let ab = (hd p = CHR ''/'');
             trailing = (last p = CHR ''/'');
             inner = join_slash (resolve_segments ab [] (split_slash p));
             inner' = (if inner = [] \<and> \<not> ab then ''.'' else inner);
             inner'' = (if inner' \<noteq> [] \<and> trailing then inner' @ ''/'' else inner')
         in if ab then CHR ''/'' # inner'' else inner''))"

definition sample_join :: "string list \<Rightarrow> string" where
  "sample_join ps = sample_normalize (join_slash (filter (\<lambda>p. p \<noteq> []) ps))"

definition sample_ext :: "string \<Rightarrow> string" where
  "sample_ext p = (if CHR ''.'' \<in> set p then CHR ''.'' # rev (takeWhile (\<lambda>c. c \<noteq> CHR ''.'') (rev p)) else [])"

definition sample_mime :: "string \<Rightarrow> string" where
  "sample_mime e = (if e = ''.js'' then ''application/javascript''
                    else if e = ''.css'' then ''text/css''
                    else ''application/octet-stream'')"

definition sample_url :: "string \<Rightarrow> string option" where
  "sample_url u = (if prefix ''https://cdn.example.com'' u then Some (drop 23 u) else None)"

definition sample_regexp :: "string \<Rightarrow> (string \<Rightarrow> (nat \<times> nat) option) option" where
  "sample_regexp src =
     (if src = ''^/'' then Some (\<lambda>s. if prefix ''/'' s then Some (0, 1) else None)
      else None)"

definition sample_platform :: platform where
  "sample_platform =
     \<lparr>path_join = sample_join, path_parse_ext = sample_ext, mime_lookup = sample_mime,
      URL_pathname = sample_url, RegExp_exec = sample_regexp\<rparr>"

definition sample_api :: api where
  "sample_api =
     \<lparr>config_mfsu = None, config_publicPath = ''/'', userConfig_mfsu = None,
      userConfig_outputPath = None, cwd = ''/app'', paths_absTmpPath = ''/app/src/.umi''\<rparr>"

text \<open>The sample configuration with the public path \<^verbatim>\<open>./\<close>.\<close>

definition relative_api :: api where
  "relative_api = sample_api\<lparr>config_publicPath := ''./''\<rparr>"

text \<open>The sample configuration with both output paths set.\<close>

definition sample_config :: "string \<Rightarrow> string \<Rightarrow> api" where
  "sample_config d p =
     sample_api\<lparr>config_mfsu :=
       Some \<lparr>development = Some \<lparr>cfg_output = Some d\<rparr>,
             production = Some \<lparr>cfg_output = Some p\<rparr>, mfName = None\<rparr>\<rparr>"

text \<open>
  Sample plugin states and sample builds: a build whose compiler reports an error, a
  build whose stats report errors, a build that succeeds, and a pass in which the
  dependencies did not change.
\<close>

definition production_state :: plugin_state where
  "production_state = \<lparr>mode = ''production'', tmpDir = ''/app/.mfsu-production''\<rparr>"

definition development_state :: plugin_state where
  "development_state = \<lparr>mode = ''development'', tmpDir = ''/app/src/.umi/.cache/.mfsu''\<rparr>"

definition failing_env :: dep_env where
  "failing_env =
     \<lparr>shouldBuild = True, deps = [''react''],
      build_err = Some (Error ''Module not found''), build_stats = None\<rparr>"

definition passing_env :: dep_env where
  "passing_env =
     \<lparr>shouldBuild = True, deps = [''react''],
      build_err = None, build_stats = Some \<lparr>hasErrors = False\<rparr>\<rparr>"

definition unchanged_env :: dep_env where
  "unchanged_env = passing_env\<lparr>shouldBuild := False\<rparr>"


text \<open>Calls of \<^verbatim>\<open>depBuilder.build\<close> in a trace.\<close>

fun is_build :: "event \<Rightarrow> bool" where
  "is_build (Build _) = True"
| "is_build _ = False"

text \<open>
  Sample requests, the files of a finished build, servers with and without a build in
  flight, an empty response, and sample command lines.
\<close>

definition sample_files :: files where
  "sample_files =
     [''/app/src/.umi/.cache/.mfsu/mf-va_remoteEntry.js'' \<mapsto> ''var mf = {};'',
      ''/app/src/.umi/.cache/.mfsu/mf-dep_vendors.7c2f.js'' \<mapsto> ''/* react */'']"

definition remoteEntry_request :: request where
  "remoteEntry_request = \<lparr>req_path = ''/mf-va_remoteEntry.js'', req_url = ''/mf-va_remoteEntry.js?t=1''\<rparr>"

definition chunk_request :: request where
  "chunk_request = \<lparr>req_path = ''/mf-dep_vendors.7c2f.js'', req_url = ''/mf-dep_vendors.7c2f.js''\<rparr>"

definition page_request :: request where
  "page_request = \<lparr>req_path = ''/umi.js'', req_url = ''/umi.js''\<rparr>"

definition building_server :: server where
  "building_server = \<lparr>builder = \<lparr>isBuilding = True, waiting = []\<rparr>, disk = Map.empty\<rparr>"

definition dev_args :: cmd_args where
  "dev_args = \<lparr>positional = [], arg_mode = None, arg_force = None\<rparr>"

definition idle_server :: server where
  "idle_server = \<lparr>builder = \<lparr>isBuilding = False, waiting = []\<rparr>, disk = sample_files\<rparr>"

definition empty_response :: response where
  "empty_response = \<lparr>headers = Map.empty, body = None\<rparr>"

definition staging_args :: cmd_args where
  "staging_args = \<lparr>positional = [''build''], arg_mode = Some ''staging'', arg_force = None\<rparr>"

section \<open>Properties of the regular expressions\<close>

text \<open>An unanchored test succeeds exactly when the matcher succeeds on some suffix.\<close>

lemma re_search_iff: "re_search m s \<longleftrightarrow> (\<exists>pre post. s = pre @ post \<and> m post)"
proof (induction s)
  case Nil then show ?case by simp
next
  case (Cons c cs)
  show ?case
  proof
    assume "re_search m (c # cs)"
    then consider "m (c # cs)" | "re_search m cs" by auto
    then show "\<exists>pre post. c # cs = pre @ post \<and> m post"
    proof cases
      case 1 then show ?thesis by (intro exI[of _ "[]"] exI[of _ "c # cs"]) simp
    next
      case 2
      with Cons.IH obtain pre post where "cs = pre @ post" "m post" by blast
      then show ?thesis by (intro exI[of _ "c # pre"] exI[of _ post]) simp
    qed
  next
    assume "\<exists>pre post. c # cs = pre @ post \<and> m post"
    then obtain pre post where e: "c # cs = pre @ post" and m: "m post" by blast
    show "re_search m (c # cs)"
    proof (cases pre)
      case Nil
      with e m have "m (c # cs)" by simp
      then show ?thesis by simp
    next
      case (Cons p ps)
      with e have "cs = ps @ post" by simp
      with m Cons.IH show ?thesis by auto
    qed
  qed
qed

lemma test_mfsu_iff: "test_mfsu s \<longleftrightarrow> sublist ''.mfsu'' s"
  unfolding test_mfsu_def re_search_iff sublist_def prefix_def by auto

lemma remoteEntry_here_iff:
  "remoteEntry_here s \<longleftrightarrow> (\<exists>c post. s = ''remoteEntry'' @ c # ''js'' @ post \<and> \<not> line_terminator c)"
  unfolding remoteEntry_here_def prefix_def
  by (auto split: list.splits)

lemma test_remoteEntry_iff:
  "test_remoteEntry s \<longleftrightarrow>
     (\<exists>pre c post. s = pre @ ''remoteEntry'' @ c # ''js'' @ post \<and> \<not> line_terminator c)"
  unfolding test_remoteEntry_def re_search_iff remoteEntry_here_iff by auto

section \<open>Properties of checkConfig\<close>

lemma assert_output_Inr:
  "assert_output out msg = Inr () \<longleftrightarrow> (\<forall>s. out = Some s \<and> s \<noteq> [] \<longrightarrow> sublist ''.mfsu'' s)"
  by (auto simp: assert_output_def test_mfsu_iff split: option.splits)

lemma assert_output_Inl:
  "assert_output out msg = Inl e \<longleftrightarrow>
     e = AssertionError msg \<and> (\<exists>s. out = Some s \<and> s \<noteq> [] \<and> \<not> sublist ''.mfsu'' s)"
  by (auto simp: assert_output_def test_mfsu_iff split: option.splits)

text \<open>
  C10. checkConfig throws an AssertionError exactly when a configured output path
  (\<^verbatim>\<open>mfsu.development.output\<close> or \<^verbatim>\<open>mfsu.production.output\<close>) does not contain the text
  \<^verbatim>\<open>.mfsu\<close>, and returns without an error exactly when every configured output path
  contains it; an absent path is not checked. A configured path is a non-empty string:
  the schema of line 215 is \<^verbatim>\<open>joi.string()\<close>, and the guards of lines 50 and 56 test the
  path for truthiness.
\<close>

theorem checkConfig_output_must_match:
  "((\<exists>msg. checkConfig a = Inl (AssertionError msg)) \<longleftrightarrow>
      (\<exists>s. s \<noteq> [] \<and> \<not> sublist ''.mfsu'' s \<and>
           (output_of (config_mfsu a) development = Some s \<or>
            output_of (config_mfsu a) production = Some s)))
   \<and> (checkConfig a = Inr () \<longleftrightarrow>
      (\<forall>s. s \<noteq> [] \<and>
           (output_of (config_mfsu a) development = Some s \<or>
            output_of (config_mfsu a) production = Some s) \<longrightarrow> sublist ''.mfsu'' s))"
proof -
  let ?d = "assert_output (output_of (config_mfsu a) development)
              ''[MFSU] mfsu.development.output must match /.mfsu/.''"
  let ?p = "assert_output (output_of (config_mfsu a) production)
              ''[MFSU] mfsu.production.output must match /.mfsu/.''"
  have cc: "checkConfig a = (case ?d of Inl e \<Rightarrow> Inl e | Inr _ \<Rightarrow> ?p)"
    by (simp add: checkConfig_def Let_def)
  show ?thesis
  proof (cases ?d)
    case (Inl e)
    then have bad: "\<exists>s. output_of (config_mfsu a) development = Some s \<and> s \<noteq> [] \<and> \<not> sublist ''.mfsu'' s"
      and e: "e = AssertionError ''[MFSU] mfsu.development.output must match /.mfsu/.''"
      by (simp_all add: assert_output_Inl)
    from Inl cc e have "checkConfig a = Inl (AssertionError ''[MFSU] mfsu.development.output must match /.mfsu/.'')"
      by simp
    with bad show ?thesis by auto
  next
    case (Inr u)
    then have good: "\<forall>s. output_of (config_mfsu a) development = Some s \<and> s \<noteq> [] \<longrightarrow> sublist ''.mfsu'' s"
      using assert_output_Inr[of "output_of (config_mfsu a) development"] by simp
    from Inr cc have c: "checkConfig a = ?p" by simp
    show ?thesis
    proof (cases ?p)
      case (Inl e)
      then have bad: "\<exists>s. output_of (config_mfsu a) production = Some s \<and> s \<noteq> [] \<and> \<not> sublist ''.mfsu'' s"
        and e: "e = AssertionError ''[MFSU] mfsu.production.output must match /.mfsu/.''"
        by (simp_all add: assert_output_Inl)
      from Inl c e have "checkConfig a = Inl (AssertionError ''[MFSU] mfsu.production.output must match /.mfsu/.'')"
        by simp
      with bad show ?thesis by auto
    next
      case (Inr v)
      then have good': "\<forall>s. output_of (config_mfsu a) production = Some s \<and> s \<noteq> [] \<longrightarrow> sublist ''.mfsu'' s"
        using assert_output_Inr[of "output_of (config_mfsu a) production"] by simp
      from Inr c have "checkConfig a = Inr ()" by simp
      with good good' show ?thesis by auto
    qed
  qed
qed

text \<open>The theorem at three configurations: a production path without the text, both
  paths with it, and no \<^verbatim>\<open>mfsu\<close> key at all.\<close>

theorem checkConfig_output_must_match_witness:
  "(\<exists>msg. checkConfig (sample_config ''./.mfsu-dev'' ''./build'') = Inl (AssertionError msg))
   \<and> checkConfig (sample_config ''./.mfsu-dev'' ''./.mfsu-prod'') = Inr ()
   \<and> checkConfig sample_api = Inr ()"
proof -
  have 1: "\<not> sublist ''.mfsu'' ''./build''" by code_simp
  have 2: "sublist ''.mfsu'' ''./.mfsu-dev''" by code_simp
  have 3: "sublist ''.mfsu'' ''./.mfsu-prod''" by code_simp
  have a: "\<exists>msg. checkConfig (sample_config ''./.mfsu-dev'' ''./build'') = Inl (AssertionError msg)"
    using checkConfig_output_must_match[of "sample_config ''./.mfsu-dev'' ''./build''"] 1
    by (auto simp add: sample_config_def sample_api_def output_of_def)
  have b: "checkConfig (sample_config ''./.mfsu-dev'' ''./.mfsu-prod'') = Inr ()"
    using checkConfig_output_must_match[of "sample_config ''./.mfsu-dev'' ''./.mfsu-prod''"] 2 3
    by (auto simp add: sample_config_def sample_api_def output_of_def)
  have c: "checkConfig sample_api = Inr ()"
    using checkConfig_output_must_match[of sample_api]
    by (simp add: sample_api_def output_of_def)
  from a b c show ?thesis by blast
qed

section \<open>Properties of buildDeps\<close>

text \<open>The events of the completion callback, of the build and of the copy step.\<close>

lemma onBuildComplete_events:
  "fst (onBuildComplete m err st) = [] \<or>
   fst (onBuildComplete m err st) = [WriteCache] \<or>
   fst (onBuildComplete m err st) = [WriteCache, SockWrite reload_message]"
  by (simp add: onBuildComplete_def split: option.splits)

lemma DepBuilder_build_events:
  "fst (DepBuilder_build env cb) = fst (cb (build_err env) (build_stats env))"
  by (simp add: DepBuilder_build_def split: prod.splits sum.splits option.splits)

lemma copy_to_dist_events:
  "copy_to_dist pf a s = [] \<or> (\<exists>src dst. copy_to_dist pf a s = [Copy src dst])"
  by (simp add: copy_to_dist_def)

lemma buildDeps_events:
  "fst (buildDeps pf a s env force) =
     LoadTmpDeps #
     (if force = Some True \<or> shouldBuild env
      then Build (deps env) # fst (onBuildComplete (mode s) (build_err env) (build_stats env)) @
           (if snd (buildDeps pf a s env force) = Inr () then copy_to_dist pf a s else [])
      else copy_to_dist pf a s)"
  using DepBuilder_build_events[of env "onBuildComplete (mode s)"]
  by (auto simp add: buildDeps_def split: prod.splits sum.splits)


text \<open>
  C2. buildDeps calls \<^verbatim>\<open>depBuilder.build\<close> if and only if \<^verbatim>\<open>force\<close> is true or
  \<^verbatim>\<open>loadTmpDeps\<close> reports \<^verbatim>\<open>shouldBuild\<close>, and then calls it once. With neither, it
  returns after \<^verbatim>\<open>loadTmpDeps\<close> and the copy step of its mode, without calling the bundler;
  with \<^verbatim>\<open>force\<close> true the build is the first thing after \<^verbatim>\<open>loadTmpDeps\<close>, whatever
  \<^verbatim>\<open>shouldBuild\<close> says.
\<close>

theorem buildDeps_builds_iff_forced_or_changed:
  "((\<exists>d. Build d \<in> set (fst (buildDeps pf a s env force))) \<longleftrightarrow>
      (force = Some True \<or> shouldBuild env))
   \<and> length (filter is_build (fst (buildDeps pf a s env force))) =
      (if force = Some True \<or> shouldBuild env then 1 else 0)
   \<and> (force \<noteq> Some True \<and> \<not> shouldBuild env \<longrightarrow>
        buildDeps pf a s env force = (LoadTmpDeps # copy_to_dist pf a s, Inr ()))
   \<and> (force = Some True \<longrightarrow>
        take 2 (fst (buildDeps pf a s env force)) = [LoadTmpDeps, Build (deps env)])"
proof -
  let ?cb = "fst (onBuildComplete (mode s) (build_err env) (build_stats env))"
  have cb: "\<forall>d. Build d \<notin> set ?cb" "filter is_build ?cb = []"
    using onBuildComplete_events[of "mode s" "build_err env" "build_stats env"] by auto
  have cp: "\<forall>d. Build d \<notin> set (copy_to_dist pf a s)" "filter is_build (copy_to_dist pf a s) = []"
    using copy_to_dist_events[of pf a s] by auto
  show ?thesis
  proof (cases "force = Some True \<or> shouldBuild env")
    case True
    then have ev: "fst (buildDeps pf a s env force) =
        LoadTmpDeps # Build (deps env) # ?cb @
          (if snd (buildDeps pf a s env force) = Inr () then copy_to_dist pf a s else [])"
      by (simp add: buildDeps_events)
    from True ev cb cp show ?thesis by auto
  next
    case False
    then have "buildDeps pf a s env force = (LoadTmpDeps # copy_to_dist pf a s, Inr ())"
      by (simp add: buildDeps_def)
    with False cp show ?thesis by auto
  qed
qed

text \<open>The theorem on a pass without changes: not forced, forced off, and forced.\<close>

theorem buildDeps_builds_iff_forced_or_changed_witness:
  "buildDeps sample_platform sample_api development_state unchanged_env None
     = ([LoadTmpDeps], Inr ())
   \<and> buildDeps sample_platform sample_api development_state unchanged_env (Some False)
     = ([LoadTmpDeps], Inr ())
   \<and> take 2 (fst (buildDeps sample_platform sample_api development_state unchanged_env (Some True)))
     = [LoadTmpDeps, Build [''react'']]"
  using buildDeps_builds_iff_forced_or_changed
          [of sample_platform sample_api development_state unchanged_env None]
        buildDeps_builds_iff_forced_or_changed
          [of sample_platform sample_api development_state unchanged_env "Some False"]
        buildDeps_builds_iff_forced_or_changed
          [of sample_platform sample_api development_state unchanged_env "Some True"]
  by (simp add: unchanged_env_def passing_env_def development_state_def copy_to_dist_def)

text \<open>
  C3. When the completion callback receives an error that is not null, or stats that
  report errors, it returns at once: \<^verbatim>\<open>writeCache\<close> is not called, and no call of it
  appears anywhere in that run of buildDeps.
\<close>

theorem failed_build_writes_no_cache:
  assumes "err \<noteq> None \<or> (\<exists>x. st = Some x \<and> hasErrors x)"
  shows "onBuildComplete m err st = ([], Inr ())
         \<and> (build_err env = err \<and> build_stats env = st \<longrightarrow>
              WriteCache \<notin> set (fst (buildDeps pf a s env force)))"
proof -
  from assms have cb: "onBuildComplete m' err st = ([], Inr ())" for m'
    by (auto simp: onBuildComplete_def split: option.splits)
  have cp: "WriteCache \<notin> set (copy_to_dist pf a s)"
    by (simp add: copy_to_dist_def)
  have "WriteCache \<notin> set (fst (buildDeps pf a s env force))"
    if "build_err env = err" "build_stats env = st"
    using that cb[of "mode s"] cp by (simp add: buildDeps_events)
  with cb show ?thesis by blast
qed

text \<open>The theorem on a compiler error, on stats with errors, and on a whole run.\<close>

theorem failed_build_writes_no_cache_witness:
  "onBuildComplete ''development'' (Some (Error ''Module not found'')) None = ([], Inr ())
   \<and> onBuildComplete ''development'' None (Some \<lparr>hasErrors = True\<rparr>) = ([], Inr ())
   \<and> WriteCache \<notin> set (fst (buildDeps sample_platform sample_api development_state failing_env None))"
  using failed_build_writes_no_cache
          [of "Some (Error ''Module not found'')" None "''development''" failing_env
              sample_platform sample_api development_state None]
        failed_build_writes_no_cache
          [of None "Some \<lparr>hasErrors = True\<rparr>" "''development''" failing_env
              sample_platform sample_api development_state None]
  by (simp add: failing_env_def)

text \<open>The traces that buildDeps can produce.\<close>

lemma buildDeps_trace_shapes:
  "\<exists>c. (c = [] \<or> c = copy_to_dist pf a s) \<and>
       (fst (buildDeps pf a s env force) = LoadTmpDeps # c
        \<or> fst (buildDeps pf a s env force) = LoadTmpDeps # Build (deps env) # c
        \<or> fst (buildDeps pf a s env force) = LoadTmpDeps # Build (deps env) # WriteCache # c
        \<or> (mode s = ''development'' \<and>
            fst (buildDeps pf a s env force) =
              LoadTmpDeps # Build (deps env) # WriteCache # SockWrite reload_message # c))"
proof (cases "force = Some True \<or> shouldBuild env")
  case False
  then show ?thesis by (intro exI[of _ "copy_to_dist pf a s"]) (simp add: buildDeps_events)
next
  case True
  let ?c = "if snd (buildDeps pf a s env force) = Inr () then copy_to_dist pf a s else []"
  have sw: "mode s = ''development''"
    if "fst (onBuildComplete (mode s) (build_err env) (build_stats env))
          = [WriteCache, SockWrite reload_message]"
    using that by (auto simp: onBuildComplete_def split: option.splits if_splits)
  from True have "fst (buildDeps pf a s env force) =
      LoadTmpDeps # Build (deps env) #
        fst (onBuildComplete (mode s) (build_err env) (build_stats env)) @ ?c"
    by (simp add: buildDeps_events)
  with onBuildComplete_events[of "mode s" "build_err env" "build_stats env"] sw
  show ?thesis by (intro exI[of _ ?c]) auto
qed

text \<open>
  C4. After a successful build in development mode the callback writes the cache and
  then sends \<^verbatim>\<open>{type: "ok", data: {reload: true}}\<close>; in production mode it writes the
  cache and sends nothing, and no run of buildDeps in production mode sends a message.
  In every run of buildDeps a message sent to the sockets has that shape and comes after
  the cache write.
\<close>

theorem successful_build_writes_cache_then_reloads:
  assumes "\<not> hasErrors x"
  shows "onBuildComplete ''development'' None (Some x) =
           ([WriteCache,
             SockWrite (JObj [(''type'', JStr ''ok''), (''data'', JObj [(''reload'', JBool True)])])],
            Inr ())
         \<and> onBuildComplete ''production'' None (Some x) = ([WriteCache], Inr ())
         \<and> (mode s = ''production'' \<longrightarrow>
              (\<forall>j. SockWrite j \<notin> set (fst (buildDeps pf a s env force))))
         \<and> (\<forall>pre j post. fst (buildDeps pf a s env force) = pre @ SockWrite j # post \<longrightarrow>
              j = JObj [(''type'', JStr ''ok''), (''data'', JObj [(''reload'', JBool True)])]
              \<and> WriteCache \<in> set pre)"
proof -
  have 1: "onBuildComplete ''development'' None (Some x) =
           ([WriteCache,
             SockWrite (JObj [(''type'', JStr ''ok''), (''data'', JObj [(''reload'', JBool True)])])],
            Inr ())"
    using assms by (simp add: onBuildComplete_def reload_message_def)
  have 2: "onBuildComplete ''production'' None (Some x) = ([WriteCache], Inr ())"
    using assms by (simp add: onBuildComplete_def)
  obtain c where c: "c = [] \<or> c = copy_to_dist pf a s"
    and sh: "fst (buildDeps pf a s env force) = LoadTmpDeps # c
        \<or> fst (buildDeps pf a s env force) = LoadTmpDeps # Build (deps env) # c
        \<or> fst (buildDeps pf a s env force) = LoadTmpDeps # Build (deps env) # WriteCache # c
        \<or> (mode s = ''development'' \<and>
            fst (buildDeps pf a s env force) =
              LoadTmpDeps # Build (deps env) # WriteCache # SockWrite reload_message # c)"
    using buildDeps_trace_shapes[of pf a s env force] by blast
  have cs: "\<forall>j. SockWrite j \<notin> set c"
    using c by (auto simp: copy_to_dist_def)
  have 3: "\<forall>j. SockWrite j \<notin> set (fst (buildDeps pf a s env force))" if "mode s = ''production''"
    using sh cs that by auto
  have 4: "j = JObj [(''type'', JStr ''ok''), (''data'', JObj [(''reload'', JBool True)])]
            \<and> WriteCache \<in> set pre"
    if eq: "fst (buildDeps pf a s env force) = pre @ SockWrite j # post" for pre j post
  proof -
    from eq have mem: "SockWrite j \<in> set (fst (buildDeps pf a s env force))" by simp
    with sh cs have full: "fst (buildDeps pf a s env force) =
              LoadTmpDeps # Build (deps env) # WriteCache # SockWrite reload_message # c"
      by auto
    with eq have e: "pre @ SockWrite j # post =
        [LoadTmpDeps, Build (deps env), WriteCache] @ SockWrite reload_message # c" by simp
    have np: "\<forall>j. SockWrite j \<notin> set [LoadTmpDeps, Build (deps env), WriteCache]" by simp
    from e cs np have "pre = [LoadTmpDeps, Build (deps env), WriteCache] \<and> j = reload_message"
      by (auto simp: append_eq_append_conv2 append_eq_Cons_conv Cons_eq_append_conv)
    then show ?thesis by (simp add: reload_message_def)
  qed
  from 1 2 3 4 show ?thesis by blast
qed

text \<open>The theorem on a successful build in development and in production mode.\<close>

theorem successful_build_writes_cache_then_reloads_witness:
  "fst (buildDeps sample_platform sample_api development_state passing_env None) =
     [LoadTmpDeps, Build [''react''], WriteCache,
      SockWrite (JObj [(''type'', JStr ''ok''), (''data'', JObj [(''reload'', JBool True)])])]
   \<and> (\<forall>j. SockWrite j \<notin> set (fst (buildDeps sample_platform sample_api production_state passing_env None)))"
proof -
  have ok: "\<not> hasErrors \<lparr>hasErrors = False\<rparr>" by simp
  have cb: "onBuildComplete ''development'' None (Some \<lparr>hasErrors = False\<rparr>) =
           ([WriteCache,
             SockWrite (JObj [(''type'', JStr ''ok''), (''data'', JObj [(''reload'', JBool True)])])],
            Inr ())"
    using successful_build_writes_cache_then_reloads[OF ok] by blast
  have a: "fst (buildDeps sample_platform sample_api development_state passing_env None) =
     [LoadTmpDeps, Build [''react''], WriteCache,
      SockWrite (JObj [(''type'', JStr ''ok''), (''data'', JObj [(''reload'', JBool True)])])]"
    using cb
    by (simp add: buildDeps_def DepBuilder_build_def passing_env_def development_state_def
                  copy_to_dist_def)
  have p: "mode production_state = ''production''" by (simp add: production_state_def)
  have b: "\<forall>j. SockWrite j \<notin> set (fst (buildDeps sample_platform sample_api production_state passing_env None))"
    using successful_build_writes_cache_then_reloads
            [OF ok, of production_state sample_platform sample_api passing_env None] p
    by blast
  from a b show ?thesis by blast
qed




text \<open>The sample platform on the paths of the production mode.\<close>

lemma sample_production_dir:
  "getMfsuPath sample_platform sample_api ''production'' = ''/app/.mfsu-production''"
  by (simp add: getMfsuPath_def sample_platform_def sample_api_def sample_join_def
                sample_normalize_def output_of_def)

lemma sample_onStart_build:
  "onStart sample_platform sample_api (\<lambda>_. True) initial_mode ''build'' dev_args =
     ([NewDepInfo ''/app/.mfsu-production'' ''production'', LoadCache,
       NewDepBuilder ''/app/.mfsu-production'' ''production''],
      Inr production_state)"
proof -
  have "checkConfig sample_api = Inr ()"
    by (simp add: checkConfig_def assert_output_def sample_api_def output_of_def)
  then show ?thesis
    by (simp add: onStart_def select_mode_def sample_production_dir production_state_def Let_def)
qed



section \<open>Properties of the middleware\<close>

text \<open>What the middleware does on either side of the classification, and the dev
  server while a build is in flight.\<close>

lemma middleware_managed:
  assumes "normalizeReqPath pf a (req_path req) = Inr r" and "isMfAssets r"
  shows "middleware pf a req = Inr (OnBuildComplete (serve_asset pf a req (fileRelativePath r)))"
  using assms by (simp add: middleware_def)

lemma middleware_unmanaged:
  assumes "normalizeReqPath pf a (req_path req) = Inr r" and "\<not> isMfAssets r"
  shows "middleware pf a req = Inr CallNext"
  using assms by (simp add: middleware_def)

lemma quiet_until_complete_Nil: "quiet_until_complete []"
  by (simp add: quiet_until_complete_def)

lemma quiet_until_complete_BuildComplete: "quiet_until_complete (BuildComplete # tr)"
  by (simp add: quiet_until_complete_def)

lemma quiet_until_complete_Next: "quiet_until_complete ([Next] @ tr) = quiet_until_complete tr"
  by (simp add: quiet_until_complete_def)

lemma server_step_building:
  assumes "isBuilding (builder sv)"
  shows "(\<exists>fs tr. inp = BuildCompletes fs \<and> snd (server_step pf a sv inp) = BuildComplete # tr)
         \<or> (isBuilding (builder (fst (server_step pf a sv inp)))
             \<and> (snd (server_step pf a sv inp) = [] \<or> snd (server_step pf a sv inp) = [Next]))"
proof (cases inp)
  case (Request req)
  show ?thesis
  proof (cases "middleware pf a req")
    case (Inl e)
    with Request assms show ?thesis by (simp add: server_step_def)
  next
    case (Inr act)
    with Request assms show ?thesis
      by (cases act) (simp_all add: server_step_def DepBuilder_onBuildComplete_def)
  qed
next
  case BuildStarts
  then show ?thesis by (simp add: server_step_def)
next
  case (BuildCompletes fs)
  then show ?thesis by (simp add: server_step_def DepBuilder_complete_def)
qed

lemma server_run_quiet_while_building:
  "isBuilding (builder sv) \<Longrightarrow> quiet_until_complete (snd (server_run pf a sv inps))"
proof (induction inps arbitrary: sv)
  case Nil
  then show ?case by (simp add: quiet_until_complete_Nil)
next
  case (Cons inp inps)
  obtain sv' evs where st: "server_step pf a sv inp = (sv', evs)" by (cases "server_step pf a sv inp")
  obtain sv'' evs' where rn: "server_run pf a sv' inps = (sv'', evs')" by (cases "server_run pf a sv' inps")
  from st rn have tr: "snd (server_run pf a sv (inp # inps)) = evs @ evs'" by simp
  from server_step_building[OF Cons.prems, of inp pf a] st
  consider tr' where "evs = BuildComplete # tr'"
    | "isBuilding (builder sv')" "evs = [] \<or> evs = [Next]" by auto
  then show ?case
  proof cases
    case 1
    with tr show ?thesis by (simp add: quiet_until_complete_BuildComplete)
  next
    case 2
    from Cons.IH[OF 2(1)] rn have "quiet_until_complete evs'" by simp
    with 2(2) tr show ?thesis using quiet_until_complete_Next[of evs'] by auto
  qed
qed

text \<open>
  C5. For a request that normalizeReqPath classifies as a managed asset, the middleware
  itself reads nothing: all it does is hand the function that reads the file and writes
  the response to \<^verbatim>\<open>depBuilder.onBuildComplete\<close>. While a build is in flight that
  function waits in the builder's queue, the request produces no event, and whatever
  arrives afterwards, no file is read and nothing is sent before the completion of the
  build; at the completion the function runs on the files the build has left. When no
  build is in flight, the builder runs the function at once.
\<close>

theorem managed_asset_read_only_on_completion:
  assumes "normalizeReqPath pf a (req_path req) = Inr r" and "isMfAssets r"
  shows "middleware pf a req = Inr (OnBuildComplete (serve_asset pf a req (fileRelativePath r)))
         \<and> (isBuilding (builder sv) \<longrightarrow>
              snd (server_step pf a sv (Request req)) = []
              \<and> waiting (builder (fst (server_step pf a sv (Request req)))) =
                  waiting (builder sv) @ [serve_asset pf a req (fileRelativePath r)]
              \<and> quiet_until_complete (snd (server_run pf a sv (Request req # inps)))
              \<and> (waiting (builder sv) = [] \<longrightarrow>
                   snd (server_run pf a sv [Request req, BuildCompletes fs]) =
                     BuildComplete # fst (serve_asset pf a req (fileRelativePath r) fs)))
         \<and> (\<not> isBuilding (builder sv) \<longrightarrow>
              server_step pf a sv (Request req) =
                (sv, fst (serve_asset pf a req (fileRelativePath r) (disk sv))))"
proof -
  note mw = middleware_managed[OF assms]
  have 5: "server_step pf a sv (Request req) =
             (sv, fst (serve_asset pf a req (fileRelativePath r) (disk sv)))"
    if "\<not> isBuilding (builder sv)"
    using that mw by (simp add: server_step_def DepBuilder_onBuildComplete_def)
  have 2: "snd (server_step pf a sv (Request req)) = []"
    and 3: "waiting (builder (fst (server_step pf a sv (Request req)))) =
              waiting (builder sv) @ [serve_asset pf a req (fileRelativePath r)]"
    if "isBuilding (builder sv)"
    using that mw by (simp_all add: server_step_def DepBuilder_onBuildComplete_def)
  have 4: "snd (server_run pf a sv [Request req, BuildCompletes fs]) =
             BuildComplete # fst (serve_asset pf a req (fileRelativePath r) fs)"
    if "isBuilding (builder sv)" "waiting (builder sv) = []"
    using that mw
    by (simp add: server_step_def DepBuilder_onBuildComplete_def DepBuilder_complete_def)
  from mw 2 3 4 5 server_run_quiet_while_building[of sv pf a "Request req # inps"]
  show ?thesis by blast
qed

text \<open>The sample platform, evaluated on the sample requests.\<close>

lemma sample_normalize_chunk:
  "normalizeReqPath sample_platform sample_api (req_path chunk_request) =
     Inr \<lparr>isMfAssets = True, normalPublicPath = ''/'',
          fileRelativePath = ''mf-dep_vendors.7c2f.js''\<rparr>"
  by (simp add: normalizeReqPath_def normal_public_path_def test_http_def
                replace_leading_dots_def sample_platform_def sample_api_def sample_regexp_def
                replace_first_def chunk_request_def)

lemma sample_normalize_remoteEntry:
  "normalizeReqPath sample_platform sample_api (req_path remoteEntry_request) =
     Inr \<lparr>isMfAssets = True, normalPublicPath = ''/'',
          fileRelativePath = ''mf-va_remoteEntry.js''\<rparr>"
  by (simp add: normalizeReqPath_def normal_public_path_def test_http_def
                replace_leading_dots_def sample_platform_def sample_api_def sample_regexp_def
                replace_first_def remoteEntry_request_def)

lemma sample_normalize_page:
  "normalizeReqPath sample_platform sample_api (req_path page_request) =
     Inr \<lparr>isMfAssets = False, normalPublicPath = ''/'', fileRelativePath = ''umi.js''\<rparr>"
  by (simp add: normalizeReqPath_def normal_public_path_def test_http_def
                replace_leading_dots_def sample_platform_def sample_api_def sample_regexp_def
                replace_first_def page_request_def)

lemma sample_dev_dir:
  "getMfsuPath sample_platform sample_api ''development'' = ''/app/src/.umi/.cache/.mfsu''"
  by (simp add: getMfsuPath_def sample_platform_def sample_api_def sample_join_def
                sample_normalize_def output_of_def)

lemma sample_chunk_file:
  "path_join sample_platform [''/app/src/.umi/.cache/.mfsu'', ''mf-dep_vendors.7c2f.js''] =
     ''/app/src/.umi/.cache/.mfsu/mf-dep_vendors.7c2f.js''"
  by (simp add: sample_platform_def sample_join_def sample_normalize_def)

lemma sample_remoteEntry_file:
  "path_join sample_platform [''/app/src/.umi/.cache/.mfsu'', ''mf-va_remoteEntry.js''] =
     ''/app/src/.umi/.cache/.mfsu/mf-va_remoteEntry.js''"
  by (simp add: sample_platform_def sample_join_def sample_normalize_def)

lemma sample_chunk_not_remoteEntry: "\<not> test_remoteEntry (req_url chunk_request)"
  by (simp add: chunk_request_def test_remoteEntry_def remoteEntry_here_def)

lemma sample_remoteEntry_is_remoteEntry: "test_remoteEntry (req_url remoteEntry_request)"
  by (simp add: remoteEntry_request_def test_remoteEntry_def remoteEntry_here_def line_terminator_def)

lemma sample_serve_chunk:
  "serve_asset sample_platform sample_api chunk_request ''mf-dep_vendors.7c2f.js'' sample_files =
     ([ReadFileSync ''/app/src/.umi/.cache/.mfsu/mf-dep_vendors.7c2f.js'',
       SetHeader ''content-type'' ''application/javascript'',
       SetHeader ''cache-control'' ''max-age=31536000,immutable'',
       Send ''/* react */''], Inr ())"
  using sample_chunk_not_remoteEntry
  by (simp add: serve_asset_def sample_dev_dir sample_chunk_file sample_files_def)
     (simp add: sample_platform_def sample_ext_def sample_mime_def chunk_request_def)

text \<open>The theorem on a chunk requested while a build is in flight.\<close>

theorem managed_asset_read_only_on_completion_witness:
  "snd (server_step sample_platform sample_api building_server (Request chunk_request)) = []
   \<and> snd (server_run sample_platform sample_api building_server
            [Request chunk_request, BuildCompletes sample_files]) =
       [BuildComplete,
        ReadFileSync ''/app/src/.umi/.cache/.mfsu/mf-dep_vendors.7c2f.js'',
        SetHeader ''content-type'' ''application/javascript'',
        SetHeader ''cache-control'' ''max-age=31536000,immutable'',
        Send ''/* react */'']"
proof -
  have m: "isMfAssets \<lparr>isMfAssets = True, normalPublicPath = ''/'',
          fileRelativePath = ''mf-dep_vendors.7c2f.js''\<rparr>" by simp
  have b: "isBuilding (builder building_server)" "waiting (builder building_server) = []"
    by (simp_all add: building_server_def)
  from managed_asset_read_only_on_completion
         [OF sample_normalize_chunk m, of building_server "[]" sample_files] b
  show ?thesis by (simp add: sample_serve_chunk)
qed

text \<open>
  C6. When normalizeReqPath returns, the public path it reports is the configured public
  path, normalised: the path name of the URL when the configured path begins with
  \<^verbatim>\<open>http://\<close> or \<^verbatim>\<open>https://\<close>, and otherwise the configured path with its leading
  dots and slashes replaced by one slash. It marks the request path as a managed asset
  exactly when the request path is that normalised public path followed by a text that
  begins with \<^verbatim>\<open>mf-va_\<close>, \<^verbatim>\<open>mf-dep_\<close> or \<^verbatim>\<open>mf-static/\<close>. The middleware calls
  \<^verbatim>\<open>next()\<close> exactly for the paths that are not marked, and does nothing else for them:
  the server is unchanged, and the only event is that call.
\<close>

theorem managed_iff_family_prefix:
  assumes "normalizeReqPath pf a (req_path req) = Inr r"
  shows "normal_public_path pf (config_publicPath a) = Inr (normalPublicPath r)
         \<and> (test_http (config_publicPath a) \<longrightarrow>
              URL_pathname pf (config_publicPath a) = Some (normalPublicPath r))
         \<and> (\<not> test_http (config_publicPath a) \<longrightarrow>
              normalPublicPath r = replace_leading_dots (config_publicPath a))
         \<and> (isMfAssets r \<longleftrightarrow>
              (\<exists>npp rest. normal_public_path pf (config_publicPath a) = Inr npp \<and>
                 req_path req = npp @ rest \<and>
                 (prefix ''mf-va_'' rest \<or> prefix ''mf-dep_'' rest \<or> prefix ''mf-static/'' rest)))
         \<and> (middleware pf a req = Inr CallNext \<longleftrightarrow> \<not> isMfAssets r)
         \<and> (\<not> isMfAssets r \<longrightarrow> server_step pf a sv (Request req) = (sv, [Next]))"
proof -
  from assms obtain npp re where
    npp: "normal_public_path pf (config_publicPath a) = Inr npp"
    and r: "r = \<lparr>isMfAssets =
                 (prefix (npp @ ''mf-va_'') (req_path req) \<or>
                  prefix (npp @ ''mf-dep_'') (req_path req) \<or>
                  prefix (npp @ ''mf-static/'') (req_path req)),
               normalPublicPath = npp,
               fileRelativePath = drop 1 (replace_first re (req_path req) ''/'')\<rparr>"
    by (auto simp: normalizeReqPath_def Let_def split: sum.splits option.splits)
  from r have n: "normalPublicPath r = npp" by simp
  have 1: "normal_public_path pf (config_publicPath a) = Inr (normalPublicPath r)"
    using npp n by simp
  have 2: "URL_pathname pf (config_publicPath a) = Some (normalPublicPath r)"
    if "test_http (config_publicPath a)"
    using that 1 by (simp add: normal_public_path_def split: option.splits)
  have 3: "normalPublicPath r = replace_leading_dots (config_publicPath a)"
    if "\<not> test_http (config_publicPath a)"
    using that 1 by (simp add: normal_public_path_def)
  have pre: "prefix (npp @ fam) p \<longleftrightarrow> (\<exists>rest. p = npp @ rest \<and> prefix fam rest)"
    for fam p :: string
    by (auto simp: prefix_def)
  have "isMfAssets r \<longleftrightarrow>
          (\<exists>rest. req_path req = npp @ rest \<and>
             (prefix ''mf-va_'' rest \<or> prefix ''mf-dep_'' rest \<or> prefix ''mf-static/'' rest))"
    unfolding r using pre[of "''mf-va_''" "req_path req"] pre[of "''mf-dep_''" "req_path req"]
      pre[of "''mf-static/''" "req_path req"]
    by (simp del: prefix_code) blast
  with npp have 4: "isMfAssets r \<longleftrightarrow>
      (\<exists>npp rest. normal_public_path pf (config_publicPath a) = Inr npp \<and>
         req_path req = npp @ rest \<and>
         (prefix ''mf-va_'' rest \<or> prefix ''mf-dep_'' rest \<or> prefix ''mf-static/'' rest))"
    by auto
  have 5: "middleware pf a req = Inr CallNext \<longleftrightarrow> \<not> isMfAssets r"
    using assms by (simp add: middleware_def)
  have 6: "server_step pf a sv (Request req) = (sv, [Next])" if "\<not> isMfAssets r"
    using middleware_unmanaged[OF assms that] by (simp add: server_step_def)
  from 1 2 3 4 5 6 show ?thesis by blast
qed

text \<open>The sample platform with the public path \<^verbatim>\<open>./\<close>.\<close>

lemma sample_normal_public_path_relative:
  "normal_public_path sample_platform (config_publicPath relative_api) = Inr ''/''"
  by (simp add: normal_public_path_def test_http_def replace_leading_dots_def relative_api_def
                sample_api_def)

lemma sample_normalize_returns:
  "\<exists>r. normalizeReqPath sample_platform relative_api p = Inr r"
  using sample_normal_public_path_relative
  by (simp add: normalizeReqPath_def sample_platform_def sample_regexp_def)

text \<open>
  The theorem on the public path \<^verbatim>\<open>./\<close>: the code marks a chunk as managed and leaves
  the application's own script to the next middleware.
\<close>

theorem managed_iff_family_prefix_witness:
  "(\<exists>r. normalizeReqPath sample_platform relative_api (req_path chunk_request) = Inr r
        \<and> normalPublicPath r = ''/'' \<and> isMfAssets r
        \<and> middleware sample_platform relative_api chunk_request \<noteq> Inr CallNext)
   \<and> server_step sample_platform relative_api building_server (Request page_request) =
       (building_server, [Next])"
proof -
  note npp = sample_normal_public_path_relative
  obtain r where r: "normalizeReqPath sample_platform relative_api (req_path chunk_request) = Inr r"
    using sample_normalize_returns by blast
  note t = managed_iff_family_prefix[OF r, of building_server]
  from t npp have n: "normalPublicPath r = ''/''" by simp
  have "req_path chunk_request = ''/'' @ ''mf-dep_vendors.7c2f.js''
        \<and> prefix ''mf-dep_'' ''mf-dep_vendors.7c2f.js''"
    by (simp add: chunk_request_def)
  with npp have "\<exists>npp rest. normal_public_path sample_platform (config_publicPath relative_api) = Inr npp \<and>
                 req_path chunk_request = npp @ rest \<and>
                 (prefix ''mf-va_'' rest \<or> prefix ''mf-dep_'' rest \<or> prefix ''mf-static/'' rest)"
    by blast
  with t have m: "isMfAssets r" by blast
  with t have c: "middleware sample_platform relative_api chunk_request \<noteq> Inr CallNext" by blast
  obtain q where q: "normalizeReqPath sample_platform relative_api (req_path page_request) = Inr q"
    using sample_normalize_returns by blast
  note u = managed_iff_family_prefix[OF q, of building_server]
  have "\<not> (\<exists>rest. req_path page_request = ''/'' @ rest \<and>
                 (prefix ''mf-va_'' rest \<or> prefix ''mf-dep_'' rest \<or> prefix ''mf-static/'' rest))"
    by (simp add: page_request_def)
  with u npp have "\<not> isMfAssets q" by auto
  with u have "server_step sample_platform relative_api building_server (Request page_request) =
       (building_server, [Next])" by blast
  with r n m c show ?thesis by blast
qed

text \<open>The events of serving a file that exists.\<close>

lemma serve_asset_found:
  assumes "fs (path_join pf [getMfsuPath pf a ''development'', rel]) = Some content"
  shows "serve_asset pf a req rel fs =
           (ReadFileSync (path_join pf [getMfsuPath pf a ''development'', rel]) #
            SetHeader ''content-type'' (mime_lookup pf (path_parse_ext pf (req_path req))) #
            (if test_remoteEntry (req_url req) then []
             else [SetHeader ''cache-control'' ''max-age=31536000,immutable'']) @
            [Send content], Inr ())"
  using assms by (simp add: serve_asset_def Let_def)

text \<open>
  C7. When the file of a managed asset is read, the response gets the content type that
  \<^verbatim>\<open>mime.lookup\<close> gives for the extension of the request path, and the text of the file
  as its body. When the request URL matches \<^verbatim>\<open>/remoteEntry.js/\<close> (the text
  \<^verbatim>\<open>remoteEntry\<close>, one character that is not a line terminator, the text \<^verbatim>\<open>js\<close>), no
  \<^verbatim>\<open>cache-control\<close> header is set and the response keeps the one it had; otherwise
  \<^verbatim>\<open>cache-control\<close> is \<^verbatim>\<open>max-age=31536000,immutable\<close>.
\<close>

theorem served_asset_headers:
  assumes "fs (path_join pf [getMfsuPath pf a ''development'', rel]) = Some content"
  shows "snd (serve_asset pf a req rel fs) = Inr ()
         \<and> headers (respond (fst (serve_asset pf a req rel fs)) res) ''content-type'' =
             Some (mime_lookup pf (path_parse_ext pf (req_path req)))
         \<and> body (respond (fst (serve_asset pf a req rel fs)) res) = Some content
         \<and> ((\<exists>pre c post. req_url req = pre @ ''remoteEntry'' @ c # ''js'' @ post
                           \<and> \<not> line_terminator c) \<longrightarrow>
              (\<forall>v. SetHeader ''cache-control'' v \<notin> set (fst (serve_asset pf a req rel fs)))
              \<and> headers (respond (fst (serve_asset pf a req rel fs)) res) ''cache-control'' =
                  headers res ''cache-control'')
         \<and> (\<not> (\<exists>pre c post. req_url req = pre @ ''remoteEntry'' @ c # ''js'' @ post
                             \<and> \<not> line_terminator c) \<longrightarrow>
              headers (respond (fst (serve_asset pf a req rel fs)) res) ''cache-control'' =
                Some ''max-age=31536000,immutable'')"
proof (cases "test_remoteEntry (req_url req)")
  case True
  then have ex: "\<exists>pre c post. req_url req = pre @ ''remoteEntry'' @ c # ''js'' @ post
                           \<and> \<not> line_terminator c"
    by (simp add: test_remoteEntry_iff)
  from True have "serve_asset pf a req rel fs =
     ([ReadFileSync (path_join pf [getMfsuPath pf a ''development'', rel]),
       SetHeader ''content-type'' (mime_lookup pf (path_parse_ext pf (req_path req))),
       Send content], Inr ())"
    by (simp add: serve_asset_found[where fs=fs and pf=pf and a=a and rel=rel, OF assms])
  with ex show ?thesis by simp
next
  case False
  then have nex: "\<not> (\<exists>pre c post. req_url req = pre @ ''remoteEntry'' @ c # ''js'' @ post
                           \<and> \<not> line_terminator c)"
    by (simp add: test_remoteEntry_iff)
  from False have "serve_asset pf a req rel fs =
     ([ReadFileSync (path_join pf [getMfsuPath pf a ''development'', rel]),
       SetHeader ''content-type'' (mime_lookup pf (path_parse_ext pf (req_path req))),
       SetHeader ''cache-control'' ''max-age=31536000,immutable'',
       Send content], Inr ())"
    by (simp add: serve_asset_found[where fs=fs and pf=pf and a=a and rel=rel, OF assms])
  with nex show ?thesis by simp
qed

lemma sample_files_chunk:
  "sample_files (path_join sample_platform
      [getMfsuPath sample_platform sample_api ''development'', ''mf-dep_vendors.7c2f.js'']) =
     Some ''/* react */''"
  by (simp add: sample_dev_dir sample_chunk_file sample_files_def)

lemma sample_files_remoteEntry:
  "sample_files (path_join sample_platform
      [getMfsuPath sample_platform sample_api ''development'', ''mf-va_remoteEntry.js'']) =
     Some ''var mf = {};''"
  by (simp add: sample_dev_dir sample_remoteEntry_file sample_files_def)

text \<open>The theorem on a chunk and on the remote entry, from a response without headers.\<close>

theorem served_asset_headers_witness:
  "headers (respond (fst (serve_asset sample_platform sample_api chunk_request
              ''mf-dep_vendors.7c2f.js'' sample_files)) empty_response) ''cache-control'' =
     Some ''max-age=31536000,immutable''
   \<and> headers (respond (fst (serve_asset sample_platform sample_api remoteEntry_request
              ''mf-va_remoteEntry.js'' sample_files)) empty_response) ''cache-control'' = None
   \<and> headers (respond (fst (serve_asset sample_platform sample_api remoteEntry_request
              ''mf-va_remoteEntry.js'' sample_files)) empty_response) ''content-type'' =
     Some ''application/javascript''"
proof -
  have a: "headers (respond (fst (serve_asset sample_platform sample_api chunk_request
              ''mf-dep_vendors.7c2f.js'' sample_files)) empty_response) ''cache-control'' =
     Some ''max-age=31536000,immutable''"
    using served_asset_headers[where fs=sample_files and pf=sample_platform and a=sample_api
            and rel="''mf-dep_vendors.7c2f.js''" and req=chunk_request and res=empty_response,
            OF sample_files_chunk]
          sample_chunk_not_remoteEntry
    by (simp add: test_remoteEntry_iff)
  have b: "headers (respond (fst (serve_asset sample_platform sample_api remoteEntry_request
              ''mf-va_remoteEntry.js'' sample_files)) empty_response) ''cache-control'' = None"
    using served_asset_headers[where fs=sample_files and pf=sample_platform and a=sample_api
            and rel="''mf-va_remoteEntry.js''" and req=remoteEntry_request
            and res=empty_response, OF sample_files_remoteEntry]
          sample_remoteEntry_is_remoteEntry
    by (simp add: test_remoteEntry_iff empty_response_def)
  have c: "headers (respond (fst (serve_asset sample_platform sample_api remoteEntry_request
              ''mf-va_remoteEntry.js'' sample_files)) empty_response) ''content-type'' =
     Some ''application/javascript''"
    using served_asset_headers[where fs=sample_files and pf=sample_platform and a=sample_api
            and rel="''mf-va_remoteEntry.js''" and req=remoteEntry_request
            and res=empty_response, OF sample_files_remoteEntry]
    by (simp add: sample_platform_def sample_ext_def sample_mime_def remoteEntry_request_def)
  from a b c show ?thesis by blast
qed

text \<open>The mode and the working directory that onStart leaves.\<close>

lemma onStart_mode:
  assumes "onStart pf a ex m0 name args = (evs, Inr s)"
  shows "mode s = select_mode name args m0 \<and> tmpDir s = getMfsuPath pf a (mode s)"
  using assms by (auto simp: onStart_def Let_def split: sum.splits if_splits)

lemma select_mode_dev_server:
  "name \<noteq> ''build'' \<Longrightarrow> name \<noteq> ''mfsu'' \<Longrightarrow> select_mode name args m0 = m0"
  by (simp add: select_mode_def)

text \<open>
  C8. The middleware belongs to the dev server, whose command is neither \<^verbatim>\<open>build\<close> nor
  \<^verbatim>\<open>mfsu\<close>; after onStart for such a command the mode is \<^verbatim>\<open>development\<close>, which is
  the mode whose mfsu path the middleware asks for (line 344). For a managed asset
  requested while no build is in flight, the file read is therefore the one at the
  asset's relative path under the mfsu path of the current mode, which is also the
  working directory of the builder; it is the only file read, and its text is what is
  sent.
\<close>

theorem managed_asset_read_from_mode_directory:
  assumes "name \<noteq> ''build''" and "name \<noteq> ''mfsu''"
    and "onStart pf a ex initial_mode name args = (evs, Inr s)"
    and "normalizeReqPath pf a (req_path req) = Inr r" and "isMfAssets r"
    and "\<not> isBuilding (builder sv)"
    and "disk sv (path_join pf [getMfsuPath pf a (mode s), fileRelativePath r]) = Some content"
  shows "mode s = ''development''
         \<and> tmpDir s = getMfsuPath pf a (mode s)
         \<and> (\<exists>tr. snd (server_step pf a sv (Request req)) =
                   ReadFileSync (path_join pf [getMfsuPath pf a (mode s), fileRelativePath r]) #
                   tr @ [Send content]
                 \<and> (\<forall>e \<in> set tr. \<not> is_read e))"
proof -
  from onStart_mode[OF assms(3)] select_mode_dev_server[OF assms(1,2)]
  have m: "mode s = ''development''" and t: "tmpDir s = getMfsuPath pf a (mode s)"
    by (simp_all add: initial_mode_def)
  from assms(7) m
  have f: "disk sv (path_join pf [getMfsuPath pf a ''development'', fileRelativePath r]) = Some content"
    by simp
  let ?hs = "SetHeader ''content-type'' (mime_lookup pf (path_parse_ext pf (req_path req))) #
            (if test_remoteEntry (req_url req) then []
             else [SetHeader ''cache-control'' ''max-age=31536000,immutable''])"
  have "snd (server_step pf a sv (Request req)) =
          fst (serve_asset pf a req (fileRelativePath r) (disk sv))"
    using middleware_managed[OF assms(4,5)] assms(6)
    by (simp add: server_step_def DepBuilder_onBuildComplete_def)
  also have "\<dots> = ReadFileSync (path_join pf [getMfsuPath pf a (mode s), fileRelativePath r]) #
                   ?hs @ [Send content]"
    using serve_asset_found[where fs="disk sv" and pf=pf and a=a and rel="fileRelativePath r", OF f] m
    by simp
  finally have "snd (server_step pf a sv (Request req)) =
                   ReadFileSync (path_join pf [getMfsuPath pf a (mode s), fileRelativePath r]) #
                   ?hs @ [Send content]" .
  moreover have "\<forall>e \<in> set ?hs. \<not> is_read e" by simp
  ultimately show ?thesis using m t by blast
qed

lemma sample_onStart_dev:
  "onStart sample_platform sample_api (\<lambda>_. True) initial_mode ''dev'' dev_args =
     ([NewDepInfo ''/app/src/.umi/.cache/.mfsu'' ''development'', LoadCache,
       NewDepBuilder ''/app/src/.umi/.cache/.mfsu'' ''development''],
      Inr \<lparr>mode = ''development'', tmpDir = ''/app/src/.umi/.cache/.mfsu''\<rparr>)"
proof -
  have "checkConfig sample_api = Inr ()"
    by (simp add: checkConfig_def assert_output_def sample_api_def output_of_def)
  then show ?thesis
    by (simp add: onStart_def select_mode_def initial_mode_def sample_dev_dir Let_def)
qed

text \<open>The theorem on a chunk requested from an idle dev server.\<close>

theorem managed_asset_read_from_mode_directory_witness:
  "\<exists>tr. snd (server_step sample_platform sample_api idle_server (Request chunk_request)) =
          ReadFileSync ''/app/src/.umi/.cache/.mfsu/mf-dep_vendors.7c2f.js'' #
          tr @ [Send ''/* react */'']"
proof -
  have n: "''dev'' \<noteq> ''build''" "''dev'' \<noteq> ''mfsu''" by simp_all
  have m: "isMfAssets \<lparr>isMfAssets = True, normalPublicPath = ''/'',
          fileRelativePath = ''mf-dep_vendors.7c2f.js''\<rparr>" by simp
  have b: "\<not> isBuilding (builder idle_server)" by (simp add: idle_server_def)
  have d: "disk idle_server (path_join sample_platform
             [getMfsuPath sample_platform sample_api
                (mode \<lparr>mode = ''development'', tmpDir = ''/app/src/.umi/.cache/.mfsu''\<rparr>),
              fileRelativePath \<lparr>isMfAssets = True, normalPublicPath = ''/'',
                 fileRelativePath = ''mf-dep_vendors.7c2f.js''\<rparr>]) = Some ''/* react */''"
    using sample_files_chunk by (simp add: idle_server_def)
  from managed_asset_read_from_mode_directory
         [where sv=idle_server and content="''/* react */''",
          OF n sample_onStart_dev sample_normalize_chunk m b d]
  show ?thesis by (auto simp add: sample_dev_dir sample_chunk_file)
qed

section \<open>Properties of the mfsu command\<close>

text \<open>
  C9. The command line \<^verbatim>\<open>umi mfsu build --mode staging\<close> reaches the plugin with the
  name \<^verbatim>\<open>mfsu\<close> and \<^verbatim>\<open>args._ = ['build']\<close>. The function of the command finds the
  subcommand at \<^verbatim>\<open>args._[0]\<close>, but onStart looks for it at \<^verbatim>\<open>args._[1]\<close> (line 133),
  which is \<^verbatim>\<open>undefined\<close>: the \<^verbatim>\<open>mode\<close> option is not read, the assertion of line 138
  holds for the initial mode, no AssertionError is thrown, and the dependencies are built
  in development mode.
\<close>

theorem mfsu_build_ignores_mode_option:
  "run_mfsu sample_platform sample_api (\<lambda>_. True) passing_env staging_args =
     ([NewDepInfo ''/app/src/.umi/.cache/.mfsu'' ''development'', LoadCache,
       NewDepBuilder ''/app/src/.umi/.cache/.mfsu'' ''development'',
       ConsoleLog ''[MFSU] build deps...'', LoadTmpDeps, Build [''react''], WriteCache,
       SockWrite (JObj [(''type'', JStr ''ok''), (''data'', JObj [(''reload'', JBool True)])])],
      Inr ())"
proof -
  have cc: "checkConfig sample_api = Inr ()"
    by (simp add: checkConfig_def assert_output_def sample_api_def output_of_def)
  have sm: "select_mode ''mfsu'' staging_args initial_mode = ''development''"
    by (simp add: select_mode_def staging_args_def at_index_def initial_mode_def)
  have st: "onStart sample_platform sample_api (\<lambda>_. True) initial_mode ''mfsu'' staging_args =
     ([NewDepInfo ''/app/src/.umi/.cache/.mfsu'' ''development'', LoadCache,
       NewDepBuilder ''/app/src/.umi/.cache/.mfsu'' ''development''],
      Inr \<lparr>mode = ''development'', tmpDir = ''/app/src/.umi/.cache/.mfsu''\<rparr>)"
    using cc sm by (simp add: onStart_def sample_dev_dir Let_def)
  have bd: "buildDeps sample_platform sample_api
              \<lparr>mode = ''development'', tmpDir = ''/app/src/.umi/.cache/.mfsu''\<rparr> passing_env None =
     ([LoadTmpDeps, Build [''react''], WriteCache,
       SockWrite (JObj [(''type'', JStr ''ok''), (''data'', JObj [(''reload'', JBool True)])])],
      Inr ())"
    by (simp add: buildDeps_def DepBuilder_build_def onBuildComplete_def build_failed_def
                  passing_env_def copy_to_dist_def reload_message_def)
  have fn: "mfsu_fn sample_platform sample_api
              \<lparr>mode = ''development'', tmpDir = ''/app/src/.umi/.cache/.mfsu''\<rparr> passing_env staging_args =
     ([ConsoleLog ''[MFSU] build deps...'', LoadTmpDeps, Build [''react''], WriteCache,
       SockWrite (JObj [(''type'', JStr ''ok''), (''data'', JObj [(''reload'', JBool True)])])],
      Inr ())"
    using bd by (simp add: mfsu_fn_def staging_args_def at_index_def)
  show ?thesis using st fn by (simp add: run_mfsu_def)
qed

end
